theory Spec2Isabelle
  imports Complex_Main
begin

section \<open>JavaScript numbers\<close>

text \<open>
  A JavaScript \<open>number\<close> is either finite or one of \<open>Infinity\<close>, \<open>-Infinity\<close>, \<open>NaN\<close>.
  The special values are kept, because the program branches on \<open>Number.isFinite\<close> and on
  comparisons that \<open>NaN\<close> fails. Finite arithmetic is taken exactly, over the reals: the
  rounding of binary64 and overflow to an infinity are not part of this model, and the two
  zeros are one value.
\<close>

datatype jsnum = Finite real | PosInfinity | NegInfinity | NaN

fun isFinite :: "jsnum \<Rightarrow> bool" where
  "isFinite (Finite x) = True"
| "isFinite PosInfinity = False"
| "isFinite NegInfinity = False"
| "isFinite NaN = False"

text \<open>\<open>a < b\<close>: false as soon as one side is \<open>NaN\<close>.\<close>

fun jslt :: "jsnum \<Rightarrow> jsnum \<Rightarrow> bool" where
  "jslt NaN b = False"
| "jslt a NaN = False"
| "jslt (Finite x) (Finite y) = (x < y)"
| "jslt (Finite x) PosInfinity = True"
| "jslt (Finite x) NegInfinity = False"
| "jslt PosInfinity b = False"
| "jslt NegInfinity NegInfinity = False"
| "jslt NegInfinity b = True"

text \<open>\<open>a === b\<close> on numbers: \<open>NaN\<close> equals nothing.\<close>

fun jseq :: "jsnum \<Rightarrow> jsnum \<Rightarrow> bool" where
  "jseq NaN b = False"
| "jseq a NaN = False"
| "jseq a b = (a = b)"

definition jsgt :: "jsnum \<Rightarrow> jsnum \<Rightarrow> bool" where
  "jsgt a b = jslt b a"


fun jsneg :: "jsnum \<Rightarrow> jsnum" where
  "jsneg (Finite x) = Finite (- x)"
| "jsneg PosInfinity = NegInfinity"
| "jsneg NegInfinity = PosInfinity"
| "jsneg NaN = NaN"

fun jsadd :: "jsnum \<Rightarrow> jsnum \<Rightarrow> jsnum" where
  "jsadd NaN b = NaN"
| "jsadd a NaN = NaN"
| "jsadd (Finite x) (Finite y) = Finite (x + y)"
| "jsadd (Finite x) b = b"
| "jsadd a (Finite y) = a"
| "jsadd PosInfinity PosInfinity = PosInfinity"
| "jsadd NegInfinity NegInfinity = NegInfinity"
| "jsadd PosInfinity NegInfinity = NaN"
| "jsadd NegInfinity PosInfinity = NaN"

definition jssub :: "jsnum \<Rightarrow> jsnum \<Rightarrow> jsnum" where
  "jssub a b = jsadd a (jsneg b)"



text \<open>\<open>Math.min\<close> and \<open>Math.max\<close> of two arguments: \<open>NaN\<close> if either is.\<close>

fun jsmin :: "jsnum \<Rightarrow> jsnum \<Rightarrow> jsnum" where
  "jsmin NaN b = NaN"
| "jsmin a NaN = NaN"
| "jsmin a b = (if jslt b a then b else a)"

fun jsmax :: "jsnum \<Rightarrow> jsnum \<Rightarrow> jsnum" where
  "jsmax NaN b = NaN"
| "jsmax a NaN = NaN"
| "jsmax a b = (if jslt a b then b else a)"


section \<open>The tiered cost calculator (pricing.ts)\<close>









section \<open>Strings and insertion-ordered sets\<close>

text \<open>
  A string is a list of 8-bit characters. The model identifiers and catalog keys of this
  program are ASCII; \<open>trim\<close> strips the ASCII white space and \<open>toLowerCase\<close> maps
  \<open>A\<close>..\<open>Z\<close>, which is what the JavaScript methods do on such strings.
\<close>

definition isWhitespace :: "char \<Rightarrow> bool" where
  "isWhitespace c = (c \<in> set [CHR 0x09, CHR 0x0A, CHR 0x0B, CHR 0x0C, CHR 0x0D, CHR 0x20])"

definition jsTrim :: "string \<Rightarrow> string" where
  "jsTrim s = rev (dropWhile isWhitespace (rev (dropWhile isWhitespace s)))"

definition lowerChar :: "char \<Rightarrow> char" where
  "lowerChar c =
     (case map_of (zip ''ABCDEFGHIJKLMNOPQRSTUVWXYZ'' ''abcdefghijklmnopqrstuvwxyz'') c of
        Some l \<Rightarrow> l
      | None \<Rightarrow> c)"

definition jsToLowerCase :: "string \<Rightarrow> string" where
  "jsToLowerCase s = map lowerChar s"

text \<open>\<open>s.startsWith(p)\<close>, \<open>s.endsWith(p)\<close> and \<open>s.includes(p)\<close>.\<close>

fun jsStartsWith :: "string \<Rightarrow> string \<Rightarrow> bool" where
  "jsStartsWith s [] = True"
| "jsStartsWith [] (p # ps) = False"
| "jsStartsWith (c # cs) (p # ps) = (c = p \<and> jsStartsWith cs ps)"

definition jsEndsWith :: "string \<Rightarrow> string \<Rightarrow> bool" where
  "jsEndsWith s p = jsStartsWith (rev s) (rev p)"

fun jsIncludes :: "string \<Rightarrow> string \<Rightarrow> bool" where
  "jsIncludes [] p = (p = [])"
| "jsIncludes (c # cs) p = (jsStartsWith (c # cs) p \<or> jsIncludes cs p)"

text \<open>
  A JavaScript \<open>Set\<close> of strings iterates in insertion order and ignores the insertion
  of a member: it is the list of its members in that order.
\<close>

definition setAdd :: "'a list \<Rightarrow> 'a \<Rightarrow> 'a list" where
  "setAdd xs x = (if x \<in> set xs then xs else xs @ [x])"

definition setOf :: "'a list \<Rightarrow> 'a list" where
  "setOf xs = fold (\<lambda>x s. setAdd s x) xs []"


section \<open>Usage entries and pricing records (types.ts, pricing.ts)\<close>

datatype SourceKind = Claude | Codex | Opencode

text \<open>
  The \<open>timestamp\<close> is the time value of a valid \<open>Date\<close>: the loaders skip every line
  whose date is invalid.
\<close>

record UsageEntry =
  source :: SourceKind
  timestamp :: real
  model :: string
  provider :: "string option"
  inputTokens :: jsnum
  outputTokens :: jsnum
  cacheReadTokens :: jsnum
  cacheWriteTokens :: jsnum
  reasoningOutputTokens :: jsnum
  costUSD :: "jsnum option"

record PricingRecord =
  input_cost_per_token :: "jsnum option"
  output_cost_per_token :: "jsnum option"
  cache_creation_input_token_cost :: "jsnum option"
  cache_read_input_token_cost :: "jsnum option"
  input_cost_per_token_above_200k_tokens :: "jsnum option"
  output_cost_per_token_above_200k_tokens :: "jsnum option"
  cache_creation_input_token_cost_above_200k_tokens :: "jsnum option"
  cache_read_input_token_cost_above_200k_tokens :: "jsnum option"

text \<open>
  The resolver reads a \<open>PricingMap\<close> at its declared type \<open>Record<string, PricingRecord>\<close>:
  the list of its own entries in the order of \<open>Object.entries\<close>, every key once.
  \<open>pricingMap[key]\<close> is \<open>map_of pricingMap key\<close>.
\<close>

type_synonym PricingMap = "(string \<times> PricingRecord) list"


section \<open>Model variants and pricing candidates (pricing.ts)\<close>

definition MODEL_ALIASES :: "(string \<times> string) list" where
  "MODEL_ALIASES =
     [(''gpt-5-codex'', ''gpt-5''),
      (''gpt-5-codex-high'', ''gpt-5''),
      (''gpt-5-codex-low'', ''gpt-5''),
      (''gpt-5-codex-max'', ''gpt-5''),
      (''gemini-3-pro-high'', ''gemini-3-pro-preview'')]"

definition isDigit :: "char \<Rightarrow> bool" where
  "isDigit c = (c \<in> set ''0123456789'')"

text \<open>
  The common head \<open>^(gpt-\d+)\.\d+\<close> of the two regular expressions, with the flag \<open>i\<close>:
  the result is the first group and what follows the minor version. A run of digits is
  followed by a character that is no digit, so the greedy match is the only one.
\<close>

definition matchGptVersion :: "string \<Rightarrow> (string \<times> string) option" where
  "matchGptVersion m =
     (let gpt = take 4 m;
          majorDigits = takeWhile isDigit (drop 4 m);
          afterMajor = dropWhile isDigit (drop 4 m)
      in if jsToLowerCase gpt = ''gpt-'' \<and> majorDigits \<noteq> []
         then (case afterMajor of
                 [] \<Rightarrow> None
               | c # afterDot \<Rightarrow>
                   if c = CHR ''.'' \<and> takeWhile isDigit afterDot \<noteq> []
                   then Some (gpt @ majorDigits, dropWhile isDigit afterDot)
                   else None)
         else None)"

text \<open>\<open>/^(gpt-\d+)\.\d+(-codex(?:-(?:mini|max|high|low))?)$/i\<close>: both groups.\<close>

definition codexVersionMatch :: "string \<Rightarrow> (string \<times> string) option" where
  "codexVersionMatch m =
     (case matchGptVersion m of
        None \<Rightarrow> None
      | Some (major, suffix) \<Rightarrow>
          if jsToLowerCase suffix \<in>
               set [''-codex'', ''-codex-mini'', ''-codex-max'', ''-codex-high'', ''-codex-low'']
          then Some (major, suffix)
          else None)"

text \<open>\<open>/^(gpt-\d+)\.\d+$/i\<close>: its group.\<close>

definition gptVersionMatch :: "string \<Rightarrow> string option" where
  "gptVersionMatch m =
     (case matchGptVersion m of
        None \<Rightarrow> None
      | Some (major, rest) \<Rightarrow> if rest = [] then Some major else None)"

definition maybeVersionAlias :: "string \<Rightarrow> string list" where
  "maybeVersionAlias m =
     (let aliases0 = [];
          aliases1 = (case codexVersionMatch m of
                        Some (major, suffix) \<Rightarrow> setAdd aliases0 (major @ suffix)
                      | None \<Rightarrow> aliases0);
          aliases2 = (case gptVersionMatch m of
                        Some major \<Rightarrow> setAdd aliases1 major
                      | None \<Rightarrow> aliases1)
      in if jsEndsWith m ''-latest''
         then setAdd aliases2 (take (length m - length ''-latest'') m)
         else aliases2)"

definition modelVariants :: "string \<Rightarrow> string list" where
  "modelVariants m =
     (let trimmed = jsTrim m;
          variants0 = (if trimmed \<noteq> [] then setAdd [] trimmed else []);
          variants1 = fold (\<lambda>alias vs. setAdd vs alias) (maybeVersionAlias trimmed) variants0
      in fold (\<lambda>candidate vs.
                 case map_of MODEL_ALIASES candidate of
                   Some explicitAlias \<Rightarrow> setAdd vs explicitAlias
                 | None \<Rightarrow> vs)
           variants1 variants1)"

fun toNonEmpty :: "string option \<Rightarrow> string list" where
  "toNonEmpty None = []"
| "toNonEmpty (Some v) = (if jsTrim v = [] then [] else [jsTrim v])"

text \<open>The candidates that one base model adds, in the order of the loop body.\<close>

definition addCandidates :: "UsageEntry \<Rightarrow> string \<Rightarrow> string list \<Rightarrow> string list" where
  "addCandidates entry baseModel candidates =
     (let c1 = fold (\<lambda>providerPrefix cs. setAdd cs (providerPrefix @ ''/'' @ baseModel))
                 (toNonEmpty (map_option jsTrim (provider entry))) candidates;
          c2 = (if source entry = Claude
                then setAdd (setAdd c1 (''anthropic/'' @ baseModel)) (''vertex_ai/'' @ baseModel)
                else c1)
      in if source entry = Codex
         then setAdd (setAdd (setAdd c2 (''openai/'' @ baseModel)) (''azure/'' @ baseModel))
                (''openrouter/openai/'' @ baseModel)
         else c2)"

definition pricingCandidates :: "UsageEntry \<Rightarrow> string list" where
  "pricingCandidates entry =
     (let baseModels = modelVariants (jsTrim (model entry))
      in fold (addCandidates entry) baseModels (setOf baseModels))"


section \<open>Resolving a pricing record (pricing.ts)\<close>

text \<open>Tier 1: the first candidate that is a key of the catalog.\<close>

fun exactMatch :: "PricingMap \<Rightarrow> string list \<Rightarrow> PricingRecord option" where
  "exactMatch pricingMap [] = None"
| "exactMatch pricingMap (candidate # candidates) =
     (case map_of pricingMap candidate of
        Some match \<Rightarrow> Some match
      | None \<Rightarrow> exactMatch pricingMap candidates)"

text \<open>Tier 2: the first entry whose key ends with one of the suffixes.\<close>

fun suffixMatch :: "PricingMap \<Rightarrow> string list \<Rightarrow> PricingRecord option" where
  "suffixMatch [] suffixes = None"
| "suffixMatch ((key, val) # entries) suffixes =
     (if list_ex (jsEndsWith key) suffixes then Some val else suffixMatch entries suffixes)"

text \<open>Tier 3: one round of the loop over the entries; \<open>best\<close> is the score and the record.\<close>

definition fuzzyStep ::
  "string \<Rightarrow> string \<times> PricingRecord \<Rightarrow> (nat \<times> PricingRecord) option
     \<Rightarrow> (nat \<times> PricingRecord) option" where
  "fuzzyStep modelLower entry best =
     (let keyLower = jsToLowerCase (fst entry);
          isMatch = (jsIncludes keyLower modelLower \<or> jsIncludes modelLower keyLower)
      in if \<not> isMatch then best
         else
           let score = min (length modelLower) (length keyLower)
           in case best of
                None \<Rightarrow> Some (score, snd entry)
              | Some b \<Rightarrow> if fst b < score then Some (score, snd entry) else best)"

definition fuzzyMatch :: "PricingMap \<Rightarrow> string \<Rightarrow> PricingRecord option" where
  "fuzzyMatch pricingMap modelLower = map_option snd (fold (fuzzyStep modelLower) pricingMap None)"

definition resolvePricing :: "PricingMap \<Rightarrow> UsageEntry \<Rightarrow> PricingRecord option" where
  "resolvePricing pricingMap entry =
     (let candidates = pricingCandidates entry
      in case exactMatch pricingMap candidates of
           Some match \<Rightarrow> Some match
         | None \<Rightarrow>
             (case suffixMatch pricingMap (map (\<lambda>candidate. ''/'' @ candidate) candidates) of
                Some val \<Rightarrow> Some val
              | None \<Rightarrow> fuzzyMatch pricingMap (jsToLowerCase (jsTrim (model entry)))))"


section \<open>Estimating the cost of an entry (pricing.ts)\<close>




section \<open>Parsed JSON\<close>

text \<open>
  The values that \<open>JSON.parse\<close> returns, and \<open>undefined\<close> for a member that is not there.
  An object is the list of its members in the order of the text; of two members with one
  name \<open>JSON.parse\<close> keeps the later.
\<close>

datatype jsvalue =
    JUndefined
  | JNull
  | JBool bool
  | JNumber jsnum
  | JString string
  | JArray "jsvalue list"
  | JObject "(string \<times> jsvalue) list"

text \<open>\<open>v == null\<close>.\<close>

fun isNullish :: "jsvalue \<Rightarrow> bool" where
  "isNullish JUndefined = True"
| "isNullish JNull = True"
| "isNullish v = False"

text \<open>\<open>typeof v === 'object'\<close>, which holds of \<open>null\<close> and of arrays too.\<close>

fun typeofObject :: "jsvalue \<Rightarrow> bool" where
  "typeofObject JNull = True"
| "typeofObject (JArray xs) = True"
| "typeofObject (JObject members) = True"
| "typeofObject v = False"

fun isArray :: "jsvalue \<Rightarrow> bool" where
  "isArray (JArray xs) = True"
| "isArray v = False"

text \<open>
  \<open>v.name\<close>, for the member names that this program reads (\<open>data\<close>, \<open>fetchedAt\<close>, \<open>type\<close>,
  \<open>payload\<close>, \<open>input_tokens\<close> and the like): none of them is a property that an array, a
  string, a number or a boolean has of its own. Reading a member of \<open>null\<close> or
  \<open>undefined\<close> throws; the program does so only behind a test, or with \<open>?.\<close>, which is
  \<open>optMember\<close>.
\<close>

fun getMember :: "jsvalue \<Rightarrow> string \<Rightarrow> jsvalue" where
  "getMember (JObject members) name =
     (case map_of (rev members) name of Some v \<Rightarrow> v | None \<Rightarrow> JUndefined)"
| "getMember v name = JUndefined"

definition optMember :: "jsvalue \<Rightarrow> string \<Rightarrow> jsvalue" where
  "optMember v name = (if isNullish v then JUndefined else getMember v name)"

text \<open>\<open>a ?? b\<close>.\<close>

definition nullish :: "jsvalue \<Rightarrow> jsvalue \<Rightarrow> jsvalue" where
  "nullish a b = (if isNullish a then b else a)"

text \<open>\<open>Object.keys(v).length\<close>, for a value that is not \<open>null\<close> or \<open>undefined\<close>.\<close>

fun objectKeyCount :: "jsvalue \<Rightarrow> nat" where
  "objectKeyCount (JObject members) = length (remdups (map fst members))"
| "objectKeyCount (JArray xs) = length xs"
| "objectKeyCount (JString s) = length s"
| "objectKeyCount v = 0"

text \<open>
  The time value of \<open>new Date(v)\<close>, which the runtime computes: \<open>None\<close> is an invalid date,
  whose \<open>getTime()\<close> is \<open>NaN\<close>. The constructor is taken to return for every value that
  it is given here, as it does for every string.
\<close>

type_synonym DateParser = "jsvalue \<Rightarrow> real option"


section \<open>Reading the fields of a log line (reporting/aggregate.ts, utils.ts)\<close>

fun asRecord :: "jsvalue \<Rightarrow> jsvalue option" where
  "asRecord (JObject members) = Some (JObject members)"
| "asRecord v = None"

fun asTrimmedString :: "jsvalue \<Rightarrow> string option" where
  "asTrimmedString (JString s) = (if jsTrim s = [] then None else Some (jsTrim s))"
| "asTrimmedString v = None"

fun normalizeNumber :: "jsvalue \<Rightarrow> jsnum" where
  "normalizeNumber (JNumber n) = (if isFinite n then n else Finite 0)"
| "normalizeNumber v = Finite 0"

text \<open>The first of the values that is a string with something in it.\<close>

fun firstTrimmedString :: "jsvalue list \<Rightarrow> string option" where
  "firstTrimmedString [] = None"
| "firstTrimmedString (candidate # candidates) =
     (case asTrimmedString candidate of
        Some text \<Rightarrow> Some text
      | None \<Rightarrow> firstTrimmedString candidates)"

function (sequential) extractModel :: "jsvalue \<Rightarrow> string option" where
  "extractModel (JObject members) =
     (let record = JObject members
      in case firstTrimmedString
                (map (getMember record)
                   [''model'', ''model_name'', ''modelID'', ''modelId'',
                    ''model_name_for_display''])
         of
           Some text \<Rightarrow> Some text
         | None \<Rightarrow>
             (case extractModel (getMember (JObject members) ''info'') of
                Some infoModel \<Rightarrow> Some infoModel
              | None \<Rightarrow>
                  (case asRecord (getMember record ''metadata'') of
                     None \<Rightarrow> None
                   | Some metadataRecord \<Rightarrow>
                       asTrimmedString (getMember metadataRecord ''model''))))"
| "extractModel v = None"
  by pat_completeness auto
termination
proof (relation "measure size")
  show "wf (measure size)" by simp
next
  fix members :: "(string \<times> jsvalue) list"
  have member: "size v < Suc (size_list (size_prod (\<lambda>_. 0) size) ms)"
    if "(k, v) \<in> set ms" for k v and ms :: "(string \<times> jsvalue) list"
    using that by (induction ms) auto
  show "(getMember (JObject members) ''info'', JObject members) \<in> measure size"
  proof (cases "map_of (rev members) ''info''")
    case None
    then show ?thesis by simp
  next
    case (Some v)
    then have "(''info'', v) \<in> set members"
      using map_of_SomeD [of "rev members" "''info''" v] by simp
    with Some show ?thesis
      using member [of "''info''" v members] by simp
  qed
qed


section \<open>Cumulative usage and its deltas (reporting/aggregate.ts)\<close>

record CodexRawUsage =
  input_tokens :: jsnum
  cached_input_tokens :: jsnum
  output_tokens :: jsnum
  reasoning_output_tokens :: jsnum
  total_tokens :: jsnum

definition normalizeCodexRawUsage :: "jsvalue \<Rightarrow> CodexRawUsage option" where
  "normalizeCodexRawUsage v =
     (case asRecord v of
        None \<Rightarrow> None
      | Some record \<Rightarrow>
          let input = normalizeNumber (getMember record ''input_tokens'');
              cached = normalizeNumber
                         (nullish (getMember record ''cached_input_tokens'')
                            (getMember record ''cache_read_input_tokens''));
              output = normalizeNumber (getMember record ''output_tokens'');
              reasoning = normalizeNumber (getMember record ''reasoning_output_tokens'');
              reported = normalizeNumber (getMember record ''total_tokens'')
          in Some \<lparr>input_tokens = input,
                   cached_input_tokens = cached,
                   output_tokens = output,
                   reasoning_output_tokens = reasoning,
                   total_tokens =
                     (if jsgt reported (Finite 0) then reported else jsadd input output)\<rparr>)"

text \<open>\<open>previous?.field ?? 0\<close>.\<close>

fun previousField :: "(CodexRawUsage \<Rightarrow> jsnum) \<Rightarrow> CodexRawUsage option \<Rightarrow> jsnum" where
  "previousField field None = Finite 0"
| "previousField field (Some previous) = field previous"

definition subtractCodexUsage :: "CodexRawUsage \<Rightarrow> CodexRawUsage option \<Rightarrow> CodexRawUsage" where
  "subtractCodexUsage current previous =
     \<lparr>input_tokens =
        jsmax (jssub (input_tokens current) (previousField input_tokens previous)) (Finite 0),
      cached_input_tokens =
        jsmax (jssub (cached_input_tokens current) (previousField cached_input_tokens previous))
          (Finite 0),
      output_tokens =
        jsmax (jssub (output_tokens current) (previousField output_tokens previous)) (Finite 0),
      reasoning_output_tokens =
        jsmax (jssub (reasoning_output_tokens current)
                 (previousField reasoning_output_tokens previous))
          (Finite 0),
      total_tokens =
        jsmax (jssub (total_tokens current) (previousField total_tokens previous)) (Finite 0)\<rparr>"


section \<open>Loading the entries of a codex session (reporting/aggregate.ts)\<close>

text \<open>What the loop over the lines of one file carries from line to line.\<close>

record codex_state =
  previousTotals :: "CodexRawUsage option"
  currentModel :: "string option"

text \<open>
  The second half of the loop body: a \<open>token_count\<close> event with a valid date. The result is
  the state for the next line and the entry that is pushed, if one is.
\<close>

definition tokenCount :: "codex_state \<Rightarrow> real \<Rightarrow> jsvalue \<Rightarrow> codex_state \<times> UsageEntry option" where
  "tokenCount st date payload =
     (let info = (case asRecord (getMember payload ''info'') of
                    None \<Rightarrow> JNull
                  | Some r \<Rightarrow> r);
          lastUsage = normalizeCodexRawUsage (optMember info ''last_token_usage'');
          totalUsage = normalizeCodexRawUsage (optMember info ''total_token_usage'');
          rawUsage = (case totalUsage of
                        Some totals \<Rightarrow> Some (subtractCodexUsage totals (previousTotals st))
                      | None \<Rightarrow> lastUsage);
          st1 = (case totalUsage of
                   Some totals \<Rightarrow> st\<lparr>previousTotals := totalUsage\<rparr>
                 | None \<Rightarrow> st)
      in case rawUsage of
           None \<Rightarrow> (st1, None)
         | Some usage \<Rightarrow>
             let modelFromPayload = (case extractModel payload of
                                       Some m \<Rightarrow> Some m
                                     | None \<Rightarrow> extractModel info);
                 st2 = (case modelFromPayload of
                          Some m \<Rightarrow> st1\<lparr>currentModel := Some m\<rparr>
                        | None \<Rightarrow> st1);
                 modelName = (case modelFromPayload of
                                Some m \<Rightarrow> m
                              | None \<Rightarrow> (case currentModel st2 of
                                            Some m \<Rightarrow> m
                                          | None \<Rightarrow> ''gpt-5''));
                 inputTokens' = input_tokens usage;
                 cacheReadTokens' = jsmin (cached_input_tokens usage) inputTokens';
                 outputTokens' = output_tokens usage;
                 reasoningOutputTokens' = reasoning_output_tokens usage
             in if jseq (jsadd (jsadd (jsadd inputTokens' outputTokens') cacheReadTokens')
                           reasoningOutputTokens')
                     (Finite 0)
                then (st2, None)
                else (st2,
                      Some \<lparr>source = Codex, timestamp = date, model = modelName,
                             provider = None,
                             inputTokens = inputTokens', outputTokens = outputTokens',
                             cacheReadTokens = cacheReadTokens', cacheWriteTokens = Finite 0,
                             reasoningOutputTokens = reasoningOutputTokens',
                             costUSD = None\<rparr>))"

text \<open>
  The tests that a line passes before its usage is read: it is an \<open>event_msg\<close> whose payload
  is a \<open>token_count\<close>, with a timestamp that is a valid date. The result is that date and the
  payload.
\<close>

definition tokenCountEvent :: "DateParser \<Rightarrow> jsvalue \<Rightarrow> (real \<times> jsvalue) option" where
  "tokenCountEvent dateTime lineRecord =
     (if asTrimmedString (getMember lineRecord ''type'') \<noteq> Some ''event_msg'' then None
      else case asRecord (getMember lineRecord ''payload'') of
             None \<Rightarrow> None
           | Some payload \<Rightarrow>
               if asTrimmedString (getMember payload ''type'') \<noteq> Some ''token_count'' then None
               else (case asTrimmedString (getMember lineRecord ''timestamp'') of
                       None \<Rightarrow> None
                     | Some stamp \<Rightarrow>
                         (case dateTime (JString stamp) of
                            None \<Rightarrow> None
                          | Some date \<Rightarrow> Some (date, payload))))"

text \<open>One round of the loop over the parsed lines of a file.\<close>

definition codexLine ::
  "DateParser \<Rightarrow> codex_state \<Rightarrow> jsvalue \<Rightarrow> codex_state \<times> UsageEntry option" where
  "codexLine dateTime st parsedLine =
     (case asRecord parsedLine of
        None \<Rightarrow> (st, None)
      | Some lineRecord \<Rightarrow>
          if asTrimmedString (getMember lineRecord ''type'') = Some ''turn_context''
          then (case extractModel (getMember lineRecord ''payload'') of
                  Some contextModel \<Rightarrow> (st\<lparr>currentModel := Some contextModel\<rparr>, None)
                | None \<Rightarrow> (st, None))
          else (case tokenCountEvent dateTime lineRecord of
                  None \<Rightarrow> (st, None)
                | Some (date, payload) \<Rightarrow> tokenCount st date payload))"

fun codexLines :: "DateParser \<Rightarrow> codex_state \<Rightarrow> jsvalue list \<Rightarrow> UsageEntry list" where
  "codexLines dateTime st [] = []"
| "codexLines dateTime st (parsedLine # parsedLines) =
     (case codexLine dateTime st parsedLine of
        (st1, None) \<Rightarrow> codexLines dateTime st1 parsedLines
      | (st1, Some entry) \<Rightarrow> entry # codexLines dateTime st1 parsedLines)"

text \<open>
  The entries of the session files, each file given as its parsed lines: every file starts
  with no previous totals and no current model.
\<close>

definition loadCodexEntries :: "DateParser \<Rightarrow> jsvalue list list \<Rightarrow> UsageEntry list" where
  "loadCodexEntries dateTime files =
     concat (map (codexLines dateTime \<lparr>previousTotals = None, currentModel = None\<rparr>) files)"

text \<open>
  The cumulative total that a line hands to the subtraction: the normalized
  \<open>total_token_usage\<close> of a line that passes the tests of \<open>codexLine\<close>.
\<close>

definition cumulativeTotal :: "DateParser \<Rightarrow> jsvalue \<Rightarrow> CodexRawUsage option" where
  "cumulativeTotal dateTime parsedLine =
     (case asRecord parsedLine of
        None \<Rightarrow> None
      | Some lineRecord \<Rightarrow>
          if asTrimmedString (getMember lineRecord ''type'') = Some ''turn_context'' then None
          else (case tokenCountEvent dateTime lineRecord of
                  None \<Rightarrow> None
                | Some (date, payload) \<Rightarrow>
                    normalizeCodexRawUsage
                      (optMember
                         (case asRecord (getMember payload ''info'') of
                            None \<Rightarrow> JNull
                          | Some r \<Rightarrow> r)
                         ''total_token_usage'')))"

text \<open>A usage whose five fields are zero.\<close>

definition zeroUsage :: CodexRawUsage where
  "zeroUsage =
     \<lparr>input_tokens = Finite 0, cached_input_tokens = Finite 0, output_tokens = Finite 0,
      reasoning_output_tokens = Finite 0, total_tokens = Finite 0\<rparr>"

text \<open>
  The reported total of a raw snapshot is a positive finite number; otherwise it is missing,
  not a number, not finite, or at most 0.
\<close>

fun positiveFiniteNumber :: "jsvalue \<Rightarrow> bool" where
  "positiveFiniteNumber (JNumber (Finite x)) = (0 < x)"
| "positiveFiniteNumber v = False"



section \<open>The cache file and the network (pricing.ts, utils.ts)\<close>

datatype PricingSource =
  FreshCache | Remote | StaleCache | OfflineCache | OfflineEmpty | Unavailable

text \<open>
  The field \<open>source\<close> of a \<open>PricingStatus\<close> is \<open>pricingSource\<close> here, since a
  \<open>UsageEntry\<close> has a field \<open>source\<close> of another type. The catalog is held as it was
  parsed: nothing checks its shape before it is returned.
\<close>

record PricingStatus =
  pricingMap :: jsvalue
  isEmpty :: bool
  pricingSource :: PricingSource

definition CACHE_MAX_AGE_MS :: real where
  "CACHE_MAX_AGE_MS = 1000 * 60 * 60 * 24"

text \<open>
  What \<open>fetch\<close> and \<open>response.json()\<close> do: the request is rejected or aborted by the
  timeout; the status is not a success; the body is not JSON; or the body parses.
\<close>

datatype fetch_response = FetchRejected | ResponseNotOk | BodyNotJson | Body jsvalue

text \<open>
  What \<open>writeJsonFile\<close> does: it writes the file, or it throws and leaves a file that
  reads as the given content.
\<close>

datatype write_result = Written | WriteThrows "jsvalue option"

text \<open>
  The surroundings of one acquisition: \<open>Date.now()\<close>, the \<open>Date\<close> constructor,
  \<open>new Date().toISOString()\<close> at the time of the write, the network and the file system.
\<close>

record environment =
  clock :: real
  parseDate :: DateParser
  isoNow :: string
  response :: fetch_response
  writeResult :: write_result

datatype io_event = ReadCacheFile | FetchCatalog | WriteCacheFile

text \<open>
  The state that the acquisition changes: the parsed content of the cache file, \<open>None\<close> when
  the file is missing, unreadable or not JSON, and the input and output done so far.
\<close>

record io_state =
  cacheFile :: "jsvalue option"
  events :: "io_event list"

text \<open>What \<open>readJsonFile\<close> returns for a file: \<open>null\<close> when reading or parsing throws.\<close>

fun fileContents :: "jsvalue option \<Rightarrow> jsvalue" where
  "fileContents None = JNull"
| "fileContents (Some v) = v"

definition readJsonFile :: "io_state \<Rightarrow> jsvalue \<times> io_state" where
  "readJsonFile st = (fileContents (cacheFile st), st\<lparr>events := events st @ [ReadCacheFile]\<rparr>)"

text \<open>
  \<open>JSON.parse(JSON.stringify(v))\<close> for a parsed value: a number that is not finite is
  written as \<open>null\<close>.
\<close>

fun stored :: "jsvalue \<Rightarrow> jsvalue" where
  "stored (JNumber n) = (if isFinite n then JNumber n else JNull)"
| "stored (JArray xs) = JArray (map stored xs)"
| "stored (JObject members) = JObject (map (\<lambda>(name, v). (name, stored v)) members)"
| "stored v = v"

definition writeJsonFile :: "environment \<Rightarrow> jsvalue \<Rightarrow> io_state \<Rightarrow> bool \<times> io_state" where
  "writeJsonFile env v st =
     (case writeResult env of
        Written \<Rightarrow>
          (True, st\<lparr>cacheFile := Some (stored v), events := events st @ [WriteCacheFile]\<rparr>)
      | WriteThrows left \<Rightarrow>
          (False, st\<lparr>cacheFile := left, events := events st @ [WriteCacheFile]\<rparr>))"


section \<open>Acquiring the pricing catalog (pricing.ts)\<close>

definition isFresh :: "environment \<Rightarrow> jsvalue \<Rightarrow> bool" where
  "isFresh env stamp =
     (case parseDate env stamp of
        None \<Rightarrow> False
      | Some time \<Rightarrow> clock env - time < CACHE_MAX_AGE_MS)"

definition readCache :: "environment \<Rightarrow> io_state \<Rightarrow> jsvalue option \<times> io_state" where
  "readCache env st =
     (case readJsonFile st of
        (cached, st1) \<Rightarrow>
          if isNullish cached \<or> \<not> typeofObject cached \<or> isNullish (getMember cached ''data'')
          then (None, st1)
          else if \<not> isFresh env (getMember cached ''fetchedAt'') then (None, st1)
          else (Some cached, st1))"

text \<open>The result is whether the write went through.\<close>

definition writeCache :: "environment \<Rightarrow> jsvalue \<Rightarrow> io_state \<Rightarrow> bool \<times> io_state" where
  "writeCache env dat st =
     writeJsonFile env (JObject [(''fetchedAt'', JString (isoNow env)), (''data'', dat)]) st"

text \<open>Every \<open>catch\<close> of the function is a branch that returns \<open>None\<close>, for \<open>null\<close>.\<close>

definition fetchLiteLLMPricing :: "environment \<Rightarrow> io_state \<Rightarrow> jsvalue option \<times> io_state" where
  "fetchLiteLLMPricing env st =
     (let st1 = st\<lparr>events := events st @ [FetchCatalog]\<rparr>
      in case response env of
           FetchRejected \<Rightarrow> (None, st1)
         | ResponseNotOk \<Rightarrow> (None, st1)
         | BodyNotJson \<Rightarrow> (None, st1)
         | Body parsed \<Rightarrow>
             if isNullish parsed \<or> \<not> typeofObject parsed \<or> isArray parsed then (None, st1)
             else (case writeCache env parsed st1 of
                     (True, st2) \<Rightarrow> (Some parsed, st2)
                   | (False, st2) \<Rightarrow> (None, st2)))"

definition loadPricingStatus :: "environment \<Rightarrow> bool \<Rightarrow> io_state \<Rightarrow> PricingStatus \<times> io_state" where
  "loadPricingStatus env offline st =
     (case readCache env st of
        (cached, st1) \<Rightarrow>
          if offline
          then (case readJsonFile st1 of
                  (stale, st2) \<Rightarrow>
                    if \<not> isNullish (optMember stale ''data'')
                    then (\<lparr>pricingMap = getMember stale ''data'',
                           isEmpty = (objectKeyCount (getMember stale ''data'') = 0),
                           pricingSource = OfflineCache\<rparr>, st2)
                    else (\<lparr>pricingMap = JObject [], isEmpty = True,
                           pricingSource = OfflineEmpty\<rparr>, st2))
          else (case fetchLiteLLMPricing env st1 of
                  (Some fetched, st2) \<Rightarrow>
                    (\<lparr>pricingMap = fetched,
                      isEmpty = (objectKeyCount fetched = 0),
                      pricingSource = Remote\<rparr>, st2)
                | (None, st2) \<Rightarrow>
                    (case cached of
                       Some c \<Rightarrow>
                         (\<lparr>pricingMap = getMember c ''data'',
                           isEmpty = (objectKeyCount (getMember c ''data'') = 0),
                           pricingSource = FreshCache\<rparr>, st2)
                     | None \<Rightarrow>
                         (case readJsonFile st2 of
                            (stale, st3) \<Rightarrow>
                              if \<not> isNullish (optMember stale ''data'')
                              then (\<lparr>pricingMap = getMember stale ''data'',
                                     isEmpty = (objectKeyCount (getMember stale ''data'') = 0),
                                     pricingSource = StaleCache\<rparr>, st3)
                              else (\<lparr>pricingMap = JObject [], isEmpty = True,
                                     pricingSource = Unavailable\<rparr>, st3)))))"

definition loadPricingMap :: "environment \<Rightarrow> bool \<Rightarrow> io_state \<Rightarrow> jsvalue \<times> io_state" where
  "loadPricingMap env offline st =
     (case loadPricingStatus env offline st of (status, st1) \<Rightarrow> (pricingMap status, st1))"


section \<open>The state of the cache file, in the words of the specification\<close>

text \<open>The file parses to a value with a member \<open>data\<close> that is not \<open>null\<close>.\<close>

definition hasCatalog :: "jsvalue option \<Rightarrow> bool" where
  "hasCatalog f = (\<not> isNullish (getMember (fileContents f) ''data''))"


text \<open>
  The file holds a catalog and its \<open>fetchedAt\<close> is a valid date less than 24 hours before
  now; a date after now counts as fresh too.
\<close>

definition freshCatalog :: "environment \<Rightarrow> jsvalue option \<Rightarrow> bool" where
  "freshCatalog env f =
     (hasCatalog f \<and>
      (case parseDate env (getMember (fileContents f) ''fetchedAt'') of
         None \<Rightarrow> False
       | Some time \<Rightarrow> clock env - time < 24 * 60 * 60 * 1000))"





section \<open>The billed buckets, in the words of the specification\<close>











section \<open>Example data\<close>

definition noRates :: PricingRecord where
  "noRates =
     \<lparr>input_cost_per_token = None, output_cost_per_token = None,
      cache_creation_input_token_cost = None, cache_read_input_token_cost = None,
      input_cost_per_token_above_200k_tokens = None,
      output_cost_per_token_above_200k_tokens = None,
      cache_creation_input_token_cost_above_200k_tokens = None,
      cache_read_input_token_cost_above_200k_tokens = None\<rparr>"

definition gpt4Rates :: PricingRecord where
  "gpt4Rates =
     noRates\<lparr>input_cost_per_token := Some (Finite (3 / 100000)),
              output_cost_per_token := Some (Finite (6 / 100000))\<rparr>"

definition gpt4TurboRates :: PricingRecord where
  "gpt4TurboRates =
     noRates\<lparr>input_cost_per_token := Some (Finite (1 / 100000)),
              output_cost_per_token := Some (Finite (3 / 100000))\<rparr>"


text \<open>The catalog of the fuzzy tie-break scenario of the specification.\<close>

definition prefixedCatalog :: PricingMap where
  "prefixedCatalog = [(''openai/gpt-4'', gpt4Rates), (''openai/gpt-4-turbo'', gpt4TurboRates)]"


definition codexEntry :: UsageEntry where
  "codexEntry =
     \<lparr>source = Codex, timestamp = 0, model = ''gpt-4'', provider = None,
      inputTokens = Finite 100000, outputTokens = Finite 50000,
      cacheReadTokens = Finite 0, cacheWriteTokens = Finite 0,
      reasoningOutputTokens = Finite 0, costUSD = None\<rparr>"

definition turboPreviewEntry :: UsageEntry where
  "turboPreviewEntry = codexEntry\<lparr>model := ''gpt-4-turbo-preview''\<rparr>"


definition claudeEntry :: UsageEntry where
  "claudeEntry =
     \<lparr>source = Claude, timestamp = 0, model = ''claude-sonnet-4'', provider = None,
      inputTokens = Finite 1000, outputTokens = Finite 2000,
      cacheReadTokens = Finite 100000, cacheWriteTokens = Finite 4000,
      reasoningOutputTokens = Finite 0, costUSD = None\<rparr>"



text \<open>A session: the model is announced, then one cumulative snapshot is logged twice.\<close>

definition contextLine :: jsvalue where
  "contextLine =
     JObject [(''type'', JString ''turn_context''),
              (''payload'', JObject [(''model'', JString ''gpt-5.1-codex'')])]"

definition snapshotLine :: jsvalue where
  "snapshotLine =
     JObject
       [(''type'', JString ''event_msg''),
        (''timestamp'', JString ''2026-01-01T00:00:00Z''),
        (''payload'',
         JObject
           [(''type'', JString ''token_count''),
            (''info'',
             JObject
               [(''total_token_usage'',
                 JObject [(''input_tokens'', JNumber (Finite 100)),
                          (''cached_input_tokens'', JNumber (Finite 40)),
                          (''output_tokens'', JNumber (Finite 7))])])])]"

definition snapshotTotals :: CodexRawUsage where
  "snapshotTotals =
     \<lparr>input_tokens = Finite 100, cached_input_tokens = Finite 40, output_tokens = Finite 7,
      reasoning_output_tokens = Finite 0, total_tokens = Finite 107\<rparr>"

text \<open>A date parser for the examples: every string is the same valid date.\<close>

fun everyStringValid :: DateParser where
  "everyStringValid (JString s) = Some 1767225600000"
| "everyStringValid v = None"

definition freshState :: codex_state where
  "freshState = \<lparr>previousTotals = None, currentModel = None\<rparr>"

text \<open>A snapshot taken after a restart of the stream, with smaller totals than before.\<close>

definition restartedTotals :: CodexRawUsage where
  "restartedTotals =
     \<lparr>input_tokens = Finite 10, cached_input_tokens = Finite 0, output_tokens = Finite 2,
      reasoning_output_tokens = Finite 0, total_tokens = Finite 12\<rparr>"

text \<open>Raw snapshots with no usable \<open>total_tokens\<close>.\<close>

definition rawWithoutTotal :: jsvalue where
  "rawWithoutTotal =
     JObject [(''input_tokens'', JNumber (Finite 3)), (''output_tokens'', JNumber (Finite 4))]"

definition rawWithTextTotal :: jsvalue where
  "rawWithTextTotal =
     JObject [(''input_tokens'', JNumber (Finite 3)), (''output_tokens'', JNumber (Finite 4)),
              (''total_tokens'', JString ''12'')]"

definition rawWithNegativeTotal :: jsvalue where
  "rawWithNegativeTotal =
     JObject [(''input_tokens'', JNumber (Finite 3)), (''output_tokens'', JNumber (Finite 4)),
              (''total_tokens'', JNumber (Finite (- 1)))]"

definition rawWithInfiniteTotal :: jsvalue where
  "rawWithInfiniteTotal =
     JObject [(''input_tokens'', JNumber (Finite 3)), (''output_tokens'', JNumber (Finite 4)),
              (''total_tokens'', JNumber PosInfinity)]"


text \<open>A network that is down, at a time one second after the example date.\<close>

definition offlineEnvironment :: environment where
  "offlineEnvironment =
     \<lparr>clock = 1767225601000, parseDate = everyStringValid,
      isoNow = ''2026-01-01T00:00:01.000Z'', response = FetchRejected,
      writeResult = Written\<rparr>"

text \<open>Cache files: one with a catalog of one model, one with an empty catalog, one with no catalog.\<close>

definition populatedFile :: "jsvalue option" where
  "populatedFile =
     Some (JObject
       [(''fetchedAt'', JString ''2026-01-01T00:00:00.000Z''),
        (''data'',
         JObject [(''openai/gpt-4'',
                   JObject [(''input_cost_per_token'', JNumber (Finite (3 / 100000)))])])])"

definition emptyCatalogFile :: "jsvalue option" where
  "emptyCatalogFile =
     Some (JObject [(''fetchedAt'', JString ''2026-01-01T00:00:00.000Z''), (''data'', JObject [])])"


definition startWith :: "jsvalue option \<Rightarrow> io_state" where
  "startWith f = \<lparr>cacheFile = f, events = []\<rparr>"


section \<open>Properties of the tiered cost calculator\<close>









section \<open>Properties of the candidates\<close>

lemma set_setAdd: "set (setAdd xs x) = insert x (set xs)"
  by (auto simp add: setAdd_def)

lemma set_fold_setAdd: "set (fold (\<lambda>x s. setAdd s x) xs acc) = set xs \<union> set acc"
  by (induction xs arbitrary: acc) (auto simp add: set_setAdd)

lemma set_setOf: "set (setOf xs) = set xs"
  by (simp add: setOf_def set_fold_setAdd)

lemma set_addCandidates:
  "set (addCandidates entry b cs) =
     set cs \<union> (\<lambda>p. p @ ''/'' @ b) ` set (toNonEmpty (map_option jsTrim (provider entry)))
       \<union> (if source entry = Claude then {''anthropic/'' @ b, ''vertex_ai/'' @ b} else {})
       \<union> (if source entry = Codex
          then {''openai/'' @ b, ''azure/'' @ b, ''openrouter/openai/'' @ b} else {})"
proof -
  have "set (fold (\<lambda>p cs. setAdd cs (p @ ''/'' @ b)) ps cs) = set cs \<union> (\<lambda>p. p @ ''/'' @ b) ` set ps"
    for ps
    by (induction ps arbitrary: cs) (auto simp add: set_setAdd)
  then show ?thesis
    by (auto simp add: addCandidates_def Let_def set_setAdd)
qed

lemma addCandidates_keeps: "set cs \<subseteq> set (addCandidates entry b cs)"
  by (auto simp add: set_addCandidates)

lemma fold_addCandidates_keeps: "set cs \<subseteq> set (fold (addCandidates entry) bs cs)"
proof (induction bs arbitrary: cs)
  case Nil
  show ?case by simp
next
  case (Cons b bs)
  have "set cs \<subseteq> set (addCandidates entry b cs)" by (rule addCandidates_keeps)
  also have "\<dots> \<subseteq> set (fold (addCandidates entry) bs (addCandidates entry b cs))"
    by (rule Cons.IH)
  finally show ?case by simp
qed

lemma variants_are_candidates:
  "set (modelVariants (jsTrim (model entry))) \<subseteq> set (pricingCandidates entry)"
  using fold_addCandidates_keeps [of "setOf (modelVariants (jsTrim (model entry)))"]
  by (simp add: pricingCandidates_def Let_def set_setOf)

lemma variants_codex_high:
  "modelVariants (jsTrim ''gpt-5.1-codex-high'') =
     [''gpt-5.1-codex-high'', ''gpt-5-codex-high'', ''gpt-5'']"
  by code_simp

lemma variants_sonnet_latest:
  "modelVariants (jsTrim ''claude-3.5-sonnet-latest'') =
     [''claude-3.5-sonnet-latest'', ''claude-3.5-sonnet'']"
  by code_simp

lemma alias_codex_high: "maybeVersionAlias ''gpt-5.1-codex-high'' = [''gpt-5-codex-high'']"
  by code_simp

lemma alias_sonnet_latest: "maybeVersionAlias ''claude-3.5-sonnet-latest'' = [''claude-3.5-sonnet'']"
  by code_simp

text \<open>
  Claim C8. The version aliases of the specification: \<open>gpt-5.1-codex-high\<close> has the alias
  \<open>gpt-5-codex-high\<close> and \<open>claude-3.5-sonnet-latest\<close> has the alias \<open>claude-3.5-sonnet\<close>,
  and each alias is among the pricing candidates of every entry with that model, whatever
  its origin and provider.
\<close>

theorem version_alias_candidates:
  "maybeVersionAlias ''gpt-5.1-codex-high'' = [''gpt-5-codex-high'']
   \<and> ''gpt-5-codex-high'' \<in> set (pricingCandidates (entry\<lparr>model := ''gpt-5.1-codex-high''\<rparr>))
   \<and> maybeVersionAlias ''claude-3.5-sonnet-latest'' = [''claude-3.5-sonnet'']
   \<and> ''claude-3.5-sonnet'' \<in>
       set (pricingCandidates (entry\<lparr>model := ''claude-3.5-sonnet-latest''\<rparr>))"
  using variants_are_candidates [of "entry\<lparr>model := ''gpt-5.1-codex-high''\<rparr>"]
    variants_are_candidates [of "entry\<lparr>model := ''claude-3.5-sonnet-latest''\<rparr>"]
  by (simp add: variants_codex_high variants_sonnet_latest alias_codex_high
      alias_sonnet_latest)

theorem version_alias_candidates_witness:
  "''gpt-5-codex-high'' \<in> set (pricingCandidates (codexEntry\<lparr>model := ''gpt-5.1-codex-high''\<rparr>))
   \<and> ''claude-3.5-sonnet'' \<in>
       set (pricingCandidates (claudeEntry\<lparr>model := ''claude-3.5-sonnet-latest''\<rparr>))"
  using version_alias_candidates [of codexEntry] version_alias_candidates [of claudeEntry]
  by simp


section \<open>Properties of the resolver\<close>

lemma candidates_min_length:
  assumes "\<forall>b\<in>set (modelVariants (jsTrim (model entry))). n \<le> length b"
  shows "\<forall>c\<in>set (pricingCandidates entry). n \<le> length c"
proof -
  have step: "\<forall>c\<in>set (addCandidates entry b cs). n \<le> length c"
    if "n \<le> length b" and "\<forall>c\<in>set cs. n \<le> length c" for b cs
    using that by (auto simp add: set_addCandidates)
  have "\<forall>c\<in>set (fold (addCandidates entry) bs cs). n \<le> length c"
    if "\<forall>b\<in>set bs. n \<le> length b" and "\<forall>c\<in>set cs. n \<le> length c" for bs cs
    using that
  proof (induction bs arbitrary: cs)
    case Nil
    then show ?case by simp
  next
    case (Cons b bs)
    from Cons.prems have "\<forall>c\<in>set (addCandidates entry b cs). n \<le> length c"
      by (intro step) simp_all
    with Cons.prems Cons.IH [of "addCandidates entry b cs"] show ?case by simp
  qed
  from this [of "modelVariants (jsTrim (model entry))"
      "setOf (modelVariants (jsTrim (model entry)))"] assms
  show ?thesis
    unfolding pricingCandidates_def Let_def set_setOf by blast
qed

lemma exactMatch_miss:
  "\<forall>c\<in>set cs. c \<notin> fst ` set pm \<Longrightarrow> exactMatch pm cs = None"
  by (induction cs) (auto simp add: map_of_eq_None_iff [THEN iffD2])

lemma jsStartsWith_length: "jsStartsWith s p \<Longrightarrow> length p \<le> length s"
  by (induction s p rule: jsStartsWith.induct) simp_all

lemma jsEndsWith_length: "jsEndsWith s p \<Longrightarrow> length p \<le> length s"
  using jsStartsWith_length [of "rev s" "rev p"] by (simp add: jsEndsWith_def)

lemma suffixMatch_miss:
  "\<forall>k\<in>fst ` set pm. \<forall>s\<in>set sufs. length k < length s \<Longrightarrow> suffixMatch pm sufs = None"
proof (induction pm sufs rule: suffixMatch.induct)
  case (1 suffixes)
  show ?case by simp
next
  case (2 key val entries suffixes)
  have "\<not> list_ex (jsEndsWith key) suffixes"
  proof
    assume "list_ex (jsEndsWith key) suffixes"
    then obtain s where "s \<in> set suffixes" and "jsEndsWith key s"
      by (auto simp add: list_ex_iff)
    with "2.prems" jsEndsWith_length [of key s] show False by force
  qed
  with 2 show ?case by simp
qed

text \<open>
  When every key of the catalog is shorter than every variant of the model, the exact and
  the suffix tier find nothing and the fuzzy tier decides.
\<close>

lemma short_keys_fall_through:
  assumes variants: "\<forall>b\<in>set (modelVariants (jsTrim (model entry))). n \<le> length b"
    and keys: "\<forall>k\<in>fst ` set pm. length k < n"
  shows "resolvePricing pm entry = fuzzyMatch pm (jsToLowerCase (jsTrim (model entry)))"
proof -
  from variants have long: "\<forall>c\<in>set (pricingCandidates entry). n \<le> length c"
    by (rule candidates_min_length)
  with keys have "\<forall>c\<in>set (pricingCandidates entry). c \<notin> fst ` set pm"
    by fastforce
  then have exact: "exactMatch pm (pricingCandidates entry) = None"
    by (rule exactMatch_miss)
  from long keys
  have "\<forall>k\<in>fst ` set pm. \<forall>s\<in>set (map (\<lambda>c. ''/'' @ c) (pricingCandidates entry)).
          length k < length s"
    by fastforce
  then have suffix: "suffixMatch pm (map (\<lambda>c. ''/'' @ c) (pricingCandidates entry)) = None"
    by (rule suffixMatch_miss)
  show ?thesis
    unfolding resolvePricing_def Let_def exact suffix by simp
qed

lemma variants_turbo_preview:
  "modelVariants (jsTrim ''gpt-4-turbo-preview'') = [''gpt-4-turbo-preview'']"
  by code_simp

lemma lower_turbo_preview:
  "jsToLowerCase (jsTrim ''gpt-4-turbo-preview'') = ''gpt-4-turbo-preview''"
  by code_simp

lemma fuzzy_prefixed:
  "fuzzyMatch [(''openai/gpt-4'', r1), (''openai/gpt-4-turbo'', r2)] ''gpt-4-turbo-preview'' = None"
  by (simp add: fuzzyMatch_def fuzzyStep_def jsToLowerCase_def lowerChar_def)

lemma fuzzy_bare:
  "fuzzyMatch [(''gpt-4'', r1), (''gpt-4-turbo'', r2)] ''gpt-4-turbo-preview'' = Some r2"
  by (simp add: fuzzyMatch_def fuzzyStep_def jsToLowerCase_def lowerChar_def)

lemma fuzzy_bare_reversed:
  "fuzzyMatch [(''gpt-4-turbo'', r2), (''gpt-4'', r1)] ''gpt-4-turbo-preview'' = Some r2"
  by (simp add: fuzzyMatch_def fuzzyStep_def jsToLowerCase_def lowerChar_def)

text \<open>
  Claim C1, as the specification states it, fails: with the keys \<open>openai/gpt-4\<close> and
  \<open>openai/gpt-4-turbo\<close> and the model \<open>gpt-4-turbo-preview\<close> no tier matches, and the
  resolver returns nothing instead of the record under \<open>openai/gpt-4-turbo\<close>. The fuzzy
  tier compares the whole key, provider prefix included, and neither key contains the model
  or is contained in it.
\<close>

theorem fuzzy_prefixed_keys_counterexample:
  "resolvePricing prefixedCatalog turboPreviewEntry = None
   \<and> map_of prefixedCatalog ''openai/gpt-4-turbo'' = Some gpt4TurboRates
   \<and> resolvePricing prefixedCatalog turboPreviewEntry \<noteq> Some gpt4TurboRates"
  by code_simp

text \<open>
  Claim C1, amended. For an entry whose model is \<open>gpt-4-turbo-preview\<close>, of any origin and
  provider: with the keys \<open>openai/gpt-4\<close> and \<open>openai/gpt-4-turbo\<close> the resolver finds no
  record; with the keys \<open>gpt-4\<close> and \<open>gpt-4-turbo\<close>, which the model contains, there is
  no exact or suffix hit, the fuzzy tier matches both, and the record under the longer key
  \<open>gpt-4-turbo\<close> is returned, in either order of the keys.
\<close>

theorem fuzzy_longer_key_wins:
  "resolvePricing [(''openai/gpt-4'', r1), (''openai/gpt-4-turbo'', r2)]
      (entry\<lparr>model := ''gpt-4-turbo-preview''\<rparr>) = None
   \<and> resolvePricing [(''gpt-4'', r1), (''gpt-4-turbo'', r2)]
      (entry\<lparr>model := ''gpt-4-turbo-preview''\<rparr>) = Some r2
   \<and> resolvePricing [(''gpt-4-turbo'', r2), (''gpt-4'', r1)]
      (entry\<lparr>model := ''gpt-4-turbo-preview''\<rparr>) = Some r2"
proof -
  let ?e = "entry\<lparr>model := ''gpt-4-turbo-preview''\<rparr>"
  have v: "\<forall>b\<in>set (modelVariants (jsTrim (model ?e))). 19 \<le> length b"
    by (simp add: variants_turbo_preview)
  have "resolvePricing pm ?e = fuzzyMatch pm ''gpt-4-turbo-preview''"
    if "\<forall>k\<in>fst ` set pm. length k < 19" for pm
    using short_keys_fall_through [OF v that] by (simp add: lower_turbo_preview)
  then show ?thesis
    by (simp add: fuzzy_prefixed fuzzy_bare fuzzy_bare_reversed)
qed

theorem fuzzy_longer_key_wins_witness:
  "resolvePricing [(''openai/gpt-4'', gpt4Rates), (''openai/gpt-4-turbo'', gpt4TurboRates)]
      (claudeEntry\<lparr>model := ''gpt-4-turbo-preview''\<rparr>) = None
   \<and> resolvePricing [(''gpt-4'', gpt4Rates), (''gpt-4-turbo'', gpt4TurboRates)]
      (claudeEntry\<lparr>model := ''gpt-4-turbo-preview''\<rparr>) = Some gpt4TurboRates"
  using fuzzy_longer_key_wins [of gpt4Rates gpt4TurboRates claudeEntry]
  by simp


section \<open>Properties of the cost estimate\<close>
















section \<open>Properties of the delta reconstruction\<close>

lemma jsmax_zero_not_negative: "\<not> jslt (jsmax a (Finite 0)) (Finite 0)"
  by (cases a) simp_all

text \<open>
  Claim C6. For every current snapshot and every previous one, or none, each of the five
  fields of the delta is \<open>max(current - previous, 0)\<close> and is not negative, also when the
  current totals are smaller than the previous ones, as after a restart of the stream.
\<close>

theorem subtractCodexUsage_never_negative:
  "input_tokens (subtractCodexUsage current previous) =
      jsmax (jssub (input_tokens current) (previousField input_tokens previous)) (Finite 0)
   \<and> cached_input_tokens (subtractCodexUsage current previous) =
      jsmax (jssub (cached_input_tokens current) (previousField cached_input_tokens previous))
        (Finite 0)
   \<and> output_tokens (subtractCodexUsage current previous) =
      jsmax (jssub (output_tokens current) (previousField output_tokens previous)) (Finite 0)
   \<and> reasoning_output_tokens (subtractCodexUsage current previous) =
      jsmax (jssub (reasoning_output_tokens current)
               (previousField reasoning_output_tokens previous)) (Finite 0)
   \<and> total_tokens (subtractCodexUsage current previous) =
      jsmax (jssub (total_tokens current) (previousField total_tokens previous)) (Finite 0)
   \<and> \<not> jslt (input_tokens (subtractCodexUsage current previous)) (Finite 0)
   \<and> \<not> jslt (cached_input_tokens (subtractCodexUsage current previous)) (Finite 0)
   \<and> \<not> jslt (output_tokens (subtractCodexUsage current previous)) (Finite 0)
   \<and> \<not> jslt (reasoning_output_tokens (subtractCodexUsage current previous)) (Finite 0)
   \<and> \<not> jslt (total_tokens (subtractCodexUsage current previous)) (Finite 0)"
  by (simp add: subtractCodexUsage_def jsmax_zero_not_negative)

theorem subtractCodexUsage_never_negative_witness:
  "subtractCodexUsage restartedTotals (Some snapshotTotals) = zeroUsage
   \<and> subtractCodexUsage snapshotTotals (Some restartedTotals) =
       \<lparr>input_tokens = Finite 90, cached_input_tokens = Finite 40, output_tokens = Finite 5,
        reasoning_output_tokens = Finite 0, total_tokens = Finite 95\<rparr>
   \<and> \<not> jslt (input_tokens (subtractCodexUsage restartedTotals (Some snapshotTotals))) (Finite 0)"
  using subtractCodexUsage_never_negative [of restartedTotals "Some snapshotTotals"]
  by (simp add: subtractCodexUsage_def restartedTotals_def snapshotTotals_def zeroUsage_def
      jssub_def)

lemma normalizeNumber_finite: "\<exists>x. normalizeNumber v = Finite x"
  by (cases v rule: normalizeNumber.cases) (auto elim: isFinite.elims)

lemma normalize_finite:
  assumes "normalizeCodexRawUsage v = Some u"
  shows "\<exists>a b c d e.
           u = \<lparr>input_tokens = Finite a, cached_input_tokens = Finite b,
                output_tokens = Finite c, reasoning_output_tokens = Finite d,
                total_tokens = Finite e\<rparr>"
proof -
  from assms obtain r where r: "asRecord v = Some r"
    by (auto simp add: normalizeCodexRawUsage_def split: option.splits)
  obtain a where a: "normalizeNumber (getMember r ''input_tokens'') = Finite a"
    using normalizeNumber_finite by blast
  obtain b where b: "normalizeNumber (nullish (getMember r ''cached_input_tokens'')
                            (getMember r ''cache_read_input_tokens'')) = Finite b"
    using normalizeNumber_finite by blast
  obtain c where c: "normalizeNumber (getMember r ''output_tokens'') = Finite c"
    using normalizeNumber_finite by blast
  obtain d where d: "normalizeNumber (getMember r ''reasoning_output_tokens'') = Finite d"
    using normalizeNumber_finite by blast
  obtain e where e: "normalizeNumber (getMember r ''total_tokens'') = Finite e"
    using normalizeNumber_finite by blast
  from assms r show ?thesis
    by (auto simp add: normalizeCodexRawUsage_def Let_def a b c d e)
qed

lemma subtract_self:
  assumes "normalizeCodexRawUsage v = Some u"
  shows "subtractCodexUsage u (Some u) = zeroUsage"
  using normalize_finite [OF assms]
  by (auto simp add: subtractCodexUsage_def zeroUsage_def jssub_def)

text \<open>A line with a cumulative total runs the second half of the loop body.\<close>

lemma cumulativeTotal_line:
  assumes "cumulativeTotal dateTime parsedLine = Some u"
  shows "\<exists>date payload.
           (\<forall>st. codexLine dateTime st parsedLine = tokenCount st date payload)
           \<and> normalizeCodexRawUsage
               (optMember
                  (case asRecord (getMember payload ''info'') of None \<Rightarrow> JNull | Some r \<Rightarrow> r)
                  ''total_token_usage'') = Some u"
proof -
  from assms obtain lineRecord where lineRec: "asRecord parsedLine = Some lineRecord"
    by (cases "asRecord parsedLine") (simp_all add: cumulativeTotal_def)
  from assms lineRec
  have notContext: "asTrimmedString (getMember lineRecord ''type'') \<noteq> Some ''turn_context''"
    by (auto simp add: cumulativeTotal_def split: if_splits)
  from assms lineRec notContext obtain date payload where
    event: "tokenCountEvent dateTime lineRecord = Some (date, payload)"
    by (cases "tokenCountEvent dateTime lineRecord") (auto simp add: cumulativeTotal_def)
  from assms lineRec notContext event
  have "normalizeCodexRawUsage
          (optMember
             (case asRecord (getMember payload ''info'') of None \<Rightarrow> JNull | Some r \<Rightarrow> r)
             ''total_token_usage'') = Some u"
    by (simp add: cumulativeTotal_def)
  moreover have "\<forall>st. codexLine dateTime st parsedLine = tokenCount st date payload"
    using lineRec notContext event by (simp add: codexLine_def)
  ultimately show ?thesis by blast
qed

lemma tokenCount_baseline:
  assumes "normalizeCodexRawUsage
       (optMember (case asRecord (getMember payload ''info'') of None \<Rightarrow> JNull | Some r \<Rightarrow> r)
          ''total_token_usage'') = Some u"
  shows "previousTotals (fst (tokenCount st date payload)) = Some u"
  using assms
  by (simp add: tokenCount_def Let_def split: option.splits)

lemma tokenCount_duplicate:
  assumes u: "normalizeCodexRawUsage
       (optMember (case asRecord (getMember payload ''info'') of None \<Rightarrow> JNull | Some r \<Rightarrow> r)
          ''total_token_usage'') = Some u"
    and prev: "previousTotals st = Some u"
  shows "snd (tokenCount st date payload) = None"
proof -
  have "subtractCodexUsage u (previousTotals st) = zeroUsage"
    using subtract_self [OF u] prev by simp
  with u show ?thesis
    by (simp add: tokenCount_def Let_def zeroUsage_def split: option.splits)
qed

text \<open>
  Claim C7. When two lines in a row hand the same cumulative total to the subtraction, the
  first makes it the baseline, the delta of the second is zero in all five fields, and the
  second line pushes no entry: the two lines yield the entries of the first alone.
\<close>

theorem duplicate_snapshot_dropped:
  assumes "cumulativeTotal dateTime line1 = Some u"
    and "cumulativeTotal dateTime line2 = Some u"
  shows "previousTotals (fst (codexLine dateTime st line1)) = Some u
         \<and> subtractCodexUsage u (previousTotals (fst (codexLine dateTime st line1))) = zeroUsage
         \<and> snd (codexLine dateTime (fst (codexLine dateTime st line1)) line2) = None
         \<and> codexLines dateTime st [line1, line2] = codexLines dateTime st [line1]"
proof -
  from cumulativeTotal_line [OF assms(1)] obtain date1 payload1 where
    line1: "\<forall>st. codexLine dateTime st line1 = tokenCount st date1 payload1"
    and u1: "normalizeCodexRawUsage
       (optMember (case asRecord (getMember payload1 ''info'') of None \<Rightarrow> JNull | Some r \<Rightarrow> r)
          ''total_token_usage'') = Some u"
    by blast
  from cumulativeTotal_line [OF assms(2)] obtain date2 payload2 where
    line2: "\<forall>st. codexLine dateTime st line2 = tokenCount st date2 payload2"
    and u2: "normalizeCodexRawUsage
       (optMember (case asRecord (getMember payload2 ''info'') of None \<Rightarrow> JNull | Some r \<Rightarrow> r)
          ''total_token_usage'') = Some u"
    by blast
  let ?st1 = "fst (codexLine dateTime st line1)"
  have baseline: "previousTotals ?st1 = Some u"
    using tokenCount_baseline [OF u1] by (simp add: line1)
  have zero: "subtractCodexUsage u (previousTotals ?st1) = zeroUsage"
    using subtract_self [OF u1] baseline by simp
  have dropped: "snd (codexLine dateTime ?st1 line2) = None"
    using tokenCount_duplicate [OF u2 baseline] by (simp add: line2)
  have "codexLines dateTime st [line1, line2] = codexLines dateTime st [line1]"
    using dropped by (cases "codexLine dateTime st line1"; cases "codexLine dateTime (fst (codexLine dateTime st line1)) line2")
      (auto split: option.splits)
  with baseline zero dropped show ?thesis by simp
qed


lemma cumulativeTotal_snapshotLine:
  "cumulativeTotal everyStringValid snapshotLine = Some snapshotTotals"
  by code_simp

theorem duplicate_snapshot_dropped_witness:
  "cumulativeTotal everyStringValid snapshotLine = Some snapshotTotals
   \<and> codexLines everyStringValid freshState [snapshotLine, snapshotLine] =
       codexLines everyStringValid freshState [snapshotLine]
   \<and> length (codexLines everyStringValid freshState [contextLine, snapshotLine, snapshotLine]) = 1"
proof -
  have "length (codexLines everyStringValid freshState [contextLine, snapshotLine, snapshotLine]) = 1"
    by code_simp
  then show ?thesis
    using duplicate_snapshot_dropped [OF cumulativeTotal_snapshotLine
        cumulativeTotal_snapshotLine, of freshState]
      cumulativeTotal_snapshotLine
    by simp
qed

lemma jsgt_normalizeNumber: "jsgt (normalizeNumber v) (Finite 0) = positiveFiniteNumber v"
  by (cases v rule: positiveFiniteNumber.cases) (simp_all add: jsgt_def)

text \<open>
  Claim C10. When the \<open>total_tokens\<close> of a raw snapshot is missing, not a number, not finite
  or at most 0, the normalized \<open>total_tokens\<close> is the sum of the normalized
  \<open>input_tokens\<close> and \<open>output_tokens\<close>, not 0.
\<close>

theorem normalize_total_fallback:
  assumes "normalizeCodexRawUsage raw = Some usage"
    and "\<not> positiveFiniteNumber (getMember raw ''total_tokens'')"
  shows "total_tokens usage = jsadd (input_tokens usage) (output_tokens usage)
         \<and> input_tokens usage = normalizeNumber (getMember raw ''input_tokens'')
         \<and> output_tokens usage = normalizeNumber (getMember raw ''output_tokens'')"
proof -
  from assms(1) have "asRecord raw = Some raw"
    by (cases raw) (simp_all add: normalizeCodexRawUsage_def)
  with assms show ?thesis
    by (auto simp add: normalizeCodexRawUsage_def Let_def jsgt_normalizeNumber)
qed

lemma normalize_examples:
  "normalizeCodexRawUsage rawWithoutTotal =
     Some \<lparr>input_tokens = Finite 3, cached_input_tokens = Finite 0, output_tokens = Finite 4,
           reasoning_output_tokens = Finite 0, total_tokens = Finite 7\<rparr>"
  "normalizeCodexRawUsage rawWithTextTotal =
     Some \<lparr>input_tokens = Finite 3, cached_input_tokens = Finite 0, output_tokens = Finite 4,
           reasoning_output_tokens = Finite 0, total_tokens = Finite 7\<rparr>"
  "normalizeCodexRawUsage rawWithNegativeTotal =
     Some \<lparr>input_tokens = Finite 3, cached_input_tokens = Finite 0, output_tokens = Finite 4,
           reasoning_output_tokens = Finite 0, total_tokens = Finite 7\<rparr>"
  "normalizeCodexRawUsage rawWithInfiniteTotal =
     Some \<lparr>input_tokens = Finite 3, cached_input_tokens = Finite 0, output_tokens = Finite 4,
           reasoning_output_tokens = Finite 0, total_tokens = Finite 7\<rparr>"
  by code_simp+

theorem normalize_total_fallback_witness:
  "map_option total_tokens (normalizeCodexRawUsage rawWithoutTotal) = Some (Finite 7)
   \<and> \<not> positiveFiniteNumber (getMember rawWithoutTotal ''total_tokens'')
   \<and> map_option total_tokens (normalizeCodexRawUsage rawWithTextTotal) = Some (Finite 7)
   \<and> \<not> positiveFiniteNumber (getMember rawWithTextTotal ''total_tokens'')
   \<and> map_option total_tokens (normalizeCodexRawUsage rawWithNegativeTotal) = Some (Finite 7)
   \<and> \<not> positiveFiniteNumber (getMember rawWithNegativeTotal ''total_tokens'')
   \<and> map_option total_tokens (normalizeCodexRawUsage rawWithInfiniteTotal) = Some (Finite 7)
   \<and> \<not> positiveFiniteNumber (getMember rawWithInfiniteTotal ''total_tokens'')"
proof -
  have "\<not> positiveFiniteNumber (getMember rawWithoutTotal ''total_tokens'')"
    "\<not> positiveFiniteNumber (getMember rawWithTextTotal ''total_tokens'')"
    "\<not> positiveFiniteNumber (getMember rawWithNegativeTotal ''total_tokens'')"
    "\<not> positiveFiniteNumber (getMember rawWithInfiniteTotal ''total_tokens'')"
    by (simp_all add: rawWithoutTotal_def rawWithTextTotal_def rawWithNegativeTotal_def
        rawWithInfiniteTotal_def)
  then show ?thesis
    using normalize_total_fallback [OF normalize_examples(1)]
      normalize_total_fallback [OF normalize_examples(2)]
      normalize_total_fallback [OF normalize_examples(3)]
      normalize_total_fallback [OF normalize_examples(4)]
    by (simp add: normalize_examples)
qed



section \<open>Properties of the acquisition\<close>


text \<open>
  The first read yields a cache exactly when the file holds a fresh catalog: the test
  \<open>typeof cached !== 'object'\<close> rejects nothing that the test on \<open>data\<close> lets through.
\<close>

lemma readCache_result:
  "readCache env st =
     (if freshCatalog env (cacheFile st) then Some (fileContents (cacheFile st)) else None,
      st\<lparr>events := events st @ [ReadCacheFile]\<rparr>)"
proof (cases "fileContents (cacheFile st)")
  case (JObject members)
  then show ?thesis
    by (simp add: readCache_def readJsonFile_def freshCatalog_def hasCatalog_def isFresh_def
        CACHE_MAX_AGE_MS_def split: option.splits)
qed (simp_all add: readCache_def readJsonFile_def freshCatalog_def hasCatalog_def)









text \<open>
  Claim C9. For every status that the acquisition returns, offline or online, whatever the
  file and the network do, \<open>isEmpty\<close> is true exactly when \<open>Object.keys\<close> of the returned
  catalog is empty.
\<close>

theorem isEmpty_iff_no_keys:
  "isEmpty (fst (loadPricingStatus env offline st)) =
     (objectKeyCount (pricingMap (fst (loadPricingStatus env offline st))) = 0)"
  by (simp add: loadPricingStatus_def readCache_result readJsonFile_def
      split: prod.splits option.splits)

theorem isEmpty_iff_no_keys_witness:
  "isEmpty (fst (loadPricingStatus offlineEnvironment True (startWith emptyCatalogFile)))
   \<and> objectKeyCount
       (pricingMap (fst (loadPricingStatus offlineEnvironment True (startWith emptyCatalogFile))))
       = 0
   \<and> \<not> isEmpty (fst (loadPricingStatus offlineEnvironment False (startWith populatedFile)))
   \<and> objectKeyCount
       (pricingMap (fst (loadPricingStatus offlineEnvironment False (startWith populatedFile))))
       = 1"
proof -
  have "objectKeyCount
          (pricingMap (fst (loadPricingStatus offlineEnvironment True (startWith emptyCatalogFile))))
          = 0"
    "objectKeyCount
       (pricingMap (fst (loadPricingStatus offlineEnvironment False (startWith populatedFile))))
       = 1"
    by code_simp+
  then show ?thesis
    using isEmpty_iff_no_keys [of offlineEnvironment True "startWith emptyCatalogFile"]
      isEmpty_iff_no_keys [of offlineEnvironment False "startWith populatedFile"]
    by simp
qed


end
